theory Spec2Isabelle
  imports Main "HOL-Library.Sublist"
begin

section \<open>JavaScript values\<close>

text \<open>
  The audited fields of a task hold strings, booleans and ObjectId references; the
  update payload may carry any value. Primitive values are compared by value;
  an ObjectId is an object, so \<open>===\<close> and \<open>!==\<close> compare its identity (the first
  component), not the 24-digit id it carries (the second). Numbers are restricted
  to the integers (no NaN).
\<close>

type_synonym ref = nat

text \<open>An ObjectId held as a document's \<open>_id\<close>: its identity and its id.\<close>

type_synonym objectid = "ref \<times> string"

datatype jsval =
    JUndefined
  | JNull
  | JBool bool
  | JNum int
  | JStr string
  | JObjectId ref string

definition strict_eq :: "jsval \<Rightarrow> jsval \<Rightarrow> bool" where
  "strict_eq a b =
     (case (a, b) of
        (JObjectId r _, JObjectId r' _) \<Rightarrow> r = r'
      | _ \<Rightarrow> a = b)"

definition strict_neq :: "jsval \<Rightarrow> jsval \<Rightarrow> bool" where
  "strict_neq a b = (\<not> strict_eq a b)"

section \<open>Documents, audit records and the world\<close>

text \<open>
  The \<open>auditUser\<close> object carried in \<open>$locals\<close> or in the query options: an actor
  \<open>{id, name, role}\<close> whose id is an ObjectId and whose name and role are strings.
\<close>

record audit_user =
  au_id :: objectid
  au_name :: string
  au_role :: string

text \<open>
  A Task document at some moment: \<open>doc._id\<close>, \<open>doc[field]\<close>, \<open>doc.isNew\<close>,
  the paths for which \<open>doc.isModified\<close> answers true, and
  \<open>doc.$locals?.auditUser\<close> (\<open>None\<close> when \<open>$locals\<close> or \<open>auditUser\<close> is missing).
\<close>

record task_doc =
  doc_id :: objectid
  doc_fields :: "string \<Rightarrow> jsval"
  isNew :: bool
  modifiedPaths :: "string list"
  locals_auditUser :: "audit_user option"

record log_entry =
  field_name :: string
  from_value :: jsval
  to_value :: jsval

text \<open>The object handed to \<open>TaskHistory.create\<close>.\<close>

record history_record =
  model :: string
  model_id :: objectid
  change_type :: string
  logs :: "log_entry list"
  created_by :: "audit_user option"
  created_at :: nat

datatype error = ValidationError | DbError | TypeError

text \<open>Operations a caller can issue on the TaskHistory model.\<close>

datatype model_op = OpCreate | OpFind | OpCountDocuments | OpUpdate | OpDelete

record world =
  history :: "history_record list"
  history_ops :: "model_op list"
  console :: "error list"
  clock :: nat

section \<open>TaskHistory model\<close>

text \<open>
  Schema validation of TaskHistory: \<open>model\<close>, \<open>model_id\<close> and \<open>change_type\<close> are
  required, and \<open>change_type\<close> is one of the enumerated strings. A document's
  \<open>_id\<close> is always present, so \<open>model_id\<close> is. The schema also casts
  \<open>created_by.id\<close> to an ObjectId and \<open>created_by.name\<close>, \<open>created_by.role\<close> to
  strings; an actor's id is an ObjectId and its name and role are strings, so these
  casts succeed, as they do for a null \<open>created_by\<close>.
\<close>

definition validate_history :: "history_record \<Rightarrow> bool" where
  "validate_history r \<longleftrightarrow>
     model r \<noteq> [] \<and>
     change_type r \<in> set [''create'', ''update'', ''delete'']"

text \<open>
  \<open>TaskHistory.create(r)\<close>. The flag \<open>up\<close> says whether the store accepts the
  write; a rejected write raises. The result is the raised error, if any, and the
  new world.
\<close>

definition TaskHistory_create :: "bool \<Rightarrow> history_record \<Rightarrow> world \<Rightarrow> error option \<times> world" where
  "TaskHistory_create up r w =
     (let w1 = w\<lparr>history_ops := history_ops w @ [OpCreate]\<rparr>
      in if \<not> validate_history r then (Some ValidationError, w1)
         else if \<not> up then (Some DbError, w1)
         else (None, w1\<lparr>history := history w1 @ [r]\<rparr>))"

section \<open>Diff helpers of the Task model\<close>

definition auditFields :: "string list" where
  "auditFields = [''title'', ''description'', ''completed'', ''owner'']"

definition getChangedFieldsForCreate :: "task_doc \<Rightarrow> log_entry list" where
  "getChangedFieldsForCreate doc =
     foldl (\<lambda>logs field.
        if strict_neq (doc_fields doc field) JUndefined
        then logs @ [\<lparr>field_name = field, from_value = JNull, to_value = doc_fields doc field\<rparr>]
        else logs) [] auditFields"

text \<open>
  \<open>doc.get(path, null, {getters: false})\<close> returns the value the document holds
  at the path now, without schema getters; \<open>doc.isModified(path)\<close> tells whether
  the path is marked modified.
\<close>

definition doc_get :: "task_doc \<Rightarrow> string \<Rightarrow> jsval" where
  "doc_get doc path = doc_fields doc path"

definition isModified :: "task_doc \<Rightarrow> string \<Rightarrow> bool" where
  "isModified doc path \<longleftrightarrow> path \<in> set (modifiedPaths doc)"

definition getChangedFieldsForUpdate :: "task_doc \<Rightarrow> log_entry list" where
  "getChangedFieldsForUpdate doc =
     foldl (\<lambda>logs field.
        if isModified doc field
        then (let originalValue = doc_get doc field;
                  newValue = doc_fields doc field
              in logs @ [\<lparr>field_name = field, from_value = originalValue, to_value = newValue\<rparr>])
        else logs) [] auditFields"

text \<open>The \<open>created_by\<close> value built in all three hooks from \<open>userContext\<close>.\<close>

definition created_by_of :: "audit_user option \<Rightarrow> audit_user option" where
  "created_by_of userContext =
     (case userContext of
        Some u \<Rightarrow> Some \<lparr>au_id = au_id u, au_name = au_name u, au_role = au_role u\<rparr>
      | None \<Rightarrow> None)"

text \<open>\<open>catch (error) { console.error(...) }\<close> followed by \<open>next()\<close>.\<close>

definition catch_and_next :: "error option \<times> world \<Rightarrow> error option \<times> world" where
  "catch_and_next r =
     (case r of
        (None, w) \<Rightarrow> (None, w)
      | (Some e, w) \<Rightarrow> (None, w\<lparr>console := console w @ [e]\<rparr>))"

section \<open>Post-save hook\<close>

definition post_save_try :: "bool \<Rightarrow> task_doc \<Rightarrow> world \<Rightarrow> error option \<times> world" where
  "post_save_try up doc w =
     (let userContext = locals_auditUser doc;
          changeType = (if isNew doc then ''create'' else ''update'');
          logs = (if changeType = ''create''
                  then getChangedFieldsForCreate doc
                  else getChangedFieldsForUpdate doc)
      in if length logs > 0 \<or> changeType = ''create''
         then TaskHistory_create up
                \<lparr>model = ''Task'', model_id = doc_id doc, change_type = changeType,
                 logs = logs, created_by = created_by_of userContext,
                 created_at = clock w\<rparr> w
         else (None, w))"

text \<open>The first component is the argument the hook passes to \<open>next\<close>.\<close>

definition post_save :: "bool \<Rightarrow> task_doc \<Rightarrow> world \<Rightarrow> error option \<times> world" where
  "post_save up doc w = catch_and_next (post_save_try up doc w)"

section \<open>Atomic update and delete hooks\<close>

text \<open>
  The update object returned by \<open>this.getUpdate()\<close>: the \<open>$set\<close> directive, if
  there is one, and the fields written directly on the payload.
\<close>

record update_payload =
  set_directive :: "(string \<Rightarrow> jsval) option"
  top_level :: "string \<Rightarrow> jsval"

text \<open>
  The query object \<open>this\<close> of the hooks: \<open>_originalDoc\<close> and \<open>_deletedDoc\<close>
  (set by the pre hooks), \<open>getOptions()?.auditUser\<close> and \<open>getUpdate()\<close>.
\<close>

record query =
  q_originalDoc :: "task_doc option"
  q_deletedDoc :: "task_doc option"
  q_auditUser :: "audit_user option"
  q_update :: "update_payload option"

text \<open>
  The pre hooks store the result of \<open>this.model.findOne(this.getQuery())\<close>, given
  here as \<open>fetched\<close>. They have no handler: a rejected fetch rejects the hook.
\<close>

definition pre_findOneAndUpdate :: "error + task_doc option \<Rightarrow> query \<Rightarrow> error + query" where
  "pre_findOneAndUpdate fetched q =
     (case fetched of
        Inl e \<Rightarrow> Inl e
      | Inr d \<Rightarrow> Inr (q\<lparr>q_originalDoc := d\<rparr>))"

definition pre_findOneAndDelete :: "error + task_doc option \<Rightarrow> query \<Rightarrow> error + query" where
  "pre_findOneAndDelete fetched q =
     (case fetched of
        Inl e \<Rightarrow> Inl e
      | Inr d \<Rightarrow> Inr (q\<lparr>q_deletedDoc := d\<rparr>))"

text \<open>
  The new value of a field: \<open>update.$set?.[field]\<close> unless undefined, else
  \<open>update[field]\<close> unless undefined, else \<open>doc[field]\<close>.
\<close>

definition resolveNewValue :: "update_payload \<Rightarrow> task_doc \<Rightarrow> string \<Rightarrow> jsval" where
  "resolveNewValue update doc field =
     (let viaSet = (case set_directive update of None \<Rightarrow> JUndefined | Some s \<Rightarrow> s field)
      in if strict_neq viaSet JUndefined then viaSet
         else if strict_neq (top_level update field) JUndefined then top_level update field
         else doc_fields doc field)"

definition updateLogs :: "task_doc \<Rightarrow> update_payload \<Rightarrow> task_doc \<Rightarrow> log_entry list" where
  "updateLogs originalDoc update doc =
     foldl (\<lambda>logs field.
        (let oldValue = doc_fields originalDoc field;
             newValue = resolveNewValue update doc field
         in if strict_neq oldValue newValue \<and> strict_neq newValue JUndefined
            then logs @ [\<lparr>field_name = field, from_value = oldValue, to_value = newValue\<rparr>]
            else logs)) [] auditFields"

text \<open>
  The \<open>try\<close> block of the post-update hook. Reading \<open>update.$set\<close> of a missing
  update object throws a TypeError.
\<close>

definition post_findOneAndUpdate_try :: "bool \<Rightarrow> query \<Rightarrow> task_doc \<Rightarrow> world \<Rightarrow> error option \<times> world" where
  "post_findOneAndUpdate_try up q doc w =
     (let userContext = q_auditUser q
      in case q_originalDoc q of
           None \<Rightarrow> (None, w)
         | Some originalDoc \<Rightarrow>
             (case q_update q of
                None \<Rightarrow> (Some TypeError, w)
              | Some update \<Rightarrow>
                  (let logs = updateLogs originalDoc update doc
                   in if length logs > 0
                      then TaskHistory_create up
                             \<lparr>model = ''Task'', model_id = doc_id doc, change_type = ''update'',
                              logs = logs, created_by = created_by_of userContext,
                              created_at = clock w\<rparr> w
                      else (None, w))))"

definition post_findOneAndUpdate :: "bool \<Rightarrow> query \<Rightarrow> task_doc option \<Rightarrow> world \<Rightarrow> error option \<times> world" where
  "post_findOneAndUpdate up q doc w =
     (case doc of
        None \<Rightarrow> (None, w)
      | Some d \<Rightarrow> catch_and_next (post_findOneAndUpdate_try up q d w))"

definition deleteSentinel :: "log_entry list" where
  "deleteSentinel =
     [\<lparr>field_name = ''status'', from_value = JStr ''active'', to_value = JStr ''deleted''\<rparr>]"

text \<open>\<open>this._deletedDoc || doc\<close>: a document object is truthy, a missing one is not.\<close>

definition deletedDoc_of :: "query \<Rightarrow> task_doc option \<Rightarrow> task_doc option" where
  "deletedDoc_of q doc = (case q_deletedDoc q of Some d \<Rightarrow> Some d | None \<Rightarrow> doc)"

definition post_findOneAndDelete_try :: "bool \<Rightarrow> query \<Rightarrow> task_doc option \<Rightarrow> world \<Rightarrow> error option \<times> world" where
  "post_findOneAndDelete_try up q doc w =
     (let userContext = q_auditUser q
      in case deletedDoc_of q doc of
           None \<Rightarrow> (None, w)
         | Some deletedDoc \<Rightarrow>
             TaskHistory_create up
               \<lparr>model = ''Task'', model_id = doc_id deletedDoc, change_type = ''delete'',
                logs = deleteSentinel, created_by = created_by_of userContext,
                created_at = clock w\<rparr> w)"

definition post_findOneAndDelete :: "bool \<Rightarrow> query \<Rightarrow> task_doc option \<Rightarrow> world \<Rightarrow> error option \<times> world" where
  "post_findOneAndDelete up q doc w = catch_and_next (post_findOneAndDelete_try up q doc w)"

section \<open>The three mutation pathways\<close>

text \<open>
  The hook protocol of the persistence layer: a rejected pre hook aborts the
  operation with its error, a failed primary mutation skips the post hook, and
  the caller receives the primary result unless the post hook passes an error
  to \<open>next\<close>. The outcome of the primary mutation is an input.

  A successful \<open>save()\<close> resets the document before the post hooks run:
  \<open>isNew\<close> becomes false and no path is marked modified any more. The post-save
  hook, and then the caller, receive the document in that state.
\<close>

definition saved_state :: "task_doc \<Rightarrow> task_doc" where
  "saved_state doc = doc\<lparr>isNew := False, modifiedPaths := []\<rparr>"

definition after_hook :: "'a \<Rightarrow> error option \<times> world \<Rightarrow> (error + 'a) \<times> world" where
  "after_hook res r = (case r of (None, w) \<Rightarrow> (Inr res, w) | (Some e, w) \<Rightarrow> (Inl e, w))"

definition save_op :: "bool \<Rightarrow> error + task_doc \<Rightarrow> world \<Rightarrow> (error + task_doc) \<times> world" where
  "save_op up primary w =
     (case primary of
        Inl e \<Rightarrow> (Inl e, w)
      | Inr doc \<Rightarrow> after_hook (saved_state doc) (post_save up (saved_state doc) w))"

definition findOneAndUpdate_op ::
  "bool \<Rightarrow> error + task_doc option \<Rightarrow> error + task_doc option \<Rightarrow> query \<Rightarrow> world
     \<Rightarrow> (error + task_doc option) \<times> world" where
  "findOneAndUpdate_op up fetched primary q w =
     (case pre_findOneAndUpdate fetched q of
        Inl e \<Rightarrow> (Inl e, w)
      | Inr q' \<Rightarrow>
          (case primary of
             Inl e \<Rightarrow> (Inl e, w)
           | Inr doc \<Rightarrow> after_hook doc (post_findOneAndUpdate up q' doc w)))"

definition findOneAndDelete_op ::
  "bool \<Rightarrow> error + task_doc option \<Rightarrow> error + task_doc option \<Rightarrow> query \<Rightarrow> world
     \<Rightarrow> (error + task_doc option) \<times> world" where
  "findOneAndDelete_op up fetched primary q w =
     (case pre_findOneAndDelete fetched q of
        Inl e \<Rightarrow> (Inl e, w)
      | Inr q' \<Rightarrow>
          (case primary of
             Inl e \<Rightarrow> (Inl e, w)
           | Inr doc \<Rightarrow> after_hook doc (post_findOneAndDelete up q' doc w)))"

section \<open>Actor context built by the task controller\<close>

record req_user =
  user_id :: objectid
  email :: string
  roles :: "string list"

text \<open>\<open>req.user.roles[0] || 'user'\<close>: a missing or empty first element is falsy.\<close>

definition first_role_or_user :: "string list \<Rightarrow> string" where
  "first_role_or_user rs =
     (case rs of [] \<Rightarrow> ''user'' | r # _ \<Rightarrow> if r = [] then ''user'' else r)"

definition auditUser_of :: "req_user \<Rightarrow> audit_user" where
  "auditUser_of u =
     \<lparr>au_id = user_id u, au_name = email u, au_role = first_role_or_user (roles u)\<rparr>"


definition attach_options :: "req_user \<Rightarrow> query \<Rightarrow> query" where
  "attach_options u q = q\<lparr>q_auditUser := Some (auditUser_of u)\<rparr>"

section \<open>Audit log retrieval\<close>

text \<open>
  \<open>getAuditLogs\<close> issues \<open>countDocuments\<close> and then \<open>find\<close> on TaskHistory,
  \<open>getTaskAuditLogs\<close> issues \<open>find\<close>; a rejected query goes to \<open>next(error)\<close>.
  Only their effect on the store is described here, not the response body.
\<close>

definition TaskHistory_query :: "model_op \<Rightarrow> bool \<Rightarrow> world \<Rightarrow> error option \<times> world" where
  "TaskHistory_query opn ok w =
     (let w1 = w\<lparr>history_ops := history_ops w @ [opn]\<rparr>
      in if ok then (None, w1) else (Some DbError, w1))"

definition getAuditLogs :: "bool \<Rightarrow> bool \<Rightarrow> world \<Rightarrow> error option \<times> world" where
  "getAuditLogs count_ok find_ok w =
     (case TaskHistory_query OpCountDocuments count_ok w of
        (Some e, w1) \<Rightarrow> (Some e, w1)
      | (None, w1) \<Rightarrow> TaskHistory_query OpFind find_ok w1)"

definition getTaskAuditLogs :: "bool \<Rightarrow> world \<Rightarrow> error option \<times> world" where
  "getTaskAuditLogs find_ok w = TaskHistory_query OpFind find_ok w"

section \<open>Sequences of operations\<close>

datatype event =
    EvSave bool "error + task_doc"
  | EvUpdate bool "error + task_doc option" "error + task_doc option" query
  | EvDelete bool "error + task_doc option" "error + task_doc option" query
  | EvGetAuditLogs bool bool
  | EvGetTaskAuditLogs bool

fun step :: "event \<Rightarrow> world \<Rightarrow> world" where
  "step (EvSave up primary) w = snd (save_op up primary w)"
| "step (EvUpdate up fetched primary q) w = snd (findOneAndUpdate_op up fetched primary q w)"
| "step (EvDelete up fetched primary q) w = snd (findOneAndDelete_op up fetched primary q w)"
| "step (EvGetAuditLogs count_ok find_ok) w = snd (getAuditLogs count_ok find_ok w)"
| "step (EvGetTaskAuditLogs find_ok) w = snd (getTaskAuditLogs find_ok w)"

fun run :: "event list \<Rightarrow> world \<Rightarrow> world" where
  "run [] w = w"
| "run (ev # evs) w = run evs (step ev w)"

section \<open>Notions used by the statements\<close>

text \<open>The records a step has added to the task_histories collection.\<close>

definition added_records :: "world \<Rightarrow> world \<Rightarrow> history_record list" where
  "added_records w w' = drop (length (history w)) (history w')"

definition update_records_nonempty :: "history_record list \<Rightarrow> bool" where
  "update_records_nonempty rs = list_all (\<lambda>r. change_type r = ''update'' \<longrightarrow> logs r \<noteq> []) rs"

text \<open>The record the post-save hook hands to \<open>TaskHistory.create\<close>.\<close>

definition save_record :: "task_doc \<Rightarrow> world \<Rightarrow> history_record" where
  "save_record doc w =
     \<lparr>model = ''Task'', model_id = doc_id doc,
      change_type = (if isNew doc then ''create'' else ''update''),
      logs = (if isNew doc then getChangedFieldsForCreate doc else getChangedFieldsForUpdate doc),
      created_by = created_by_of (locals_auditUser doc), created_at = clock w\<rparr>"


text \<open>Operations that read the collection or append to it.\<close>

definition reads_or_appends :: "model_op list \<Rightarrow> bool" where
  "reads_or_appends ops \<longleftrightarrow> set ops \<subseteq> {OpCreate, OpFind, OpCountDocuments}"

section \<open>Example inputs\<close>

definition world0 :: world where
  "world0 = \<lparr>history = [], history_ops = [], console = [], clock = 0\<rparr>"

text \<open>
  Documents on which \<open>save()\<close> is called: \<open>new_task\<close>, a task just built by
  \<open>createTask\<close>; \<open>minimal_new_task\<close>, a task built from a title and an owner only
  (\<open>completed\<close> takes its default); \<open>edited_task\<close>, the stored task
  \<open>loaded_task\<close> after \<open>task.title = 'b'\<close>.
\<close>

definition new_task :: task_doc where
  "new_task =
     \<lparr>doc_id = (10, ''t1''),
      doc_fields = (\<lambda>_. JUndefined)
        (''title'' := JStr ''Buy milk'', ''description'' := JStr [],
         ''completed'' := JBool False, ''owner'' := JObjectId 11 ''u1''),
      isNew = True, modifiedPaths = [''title'', ''description'', ''owner''],
      locals_auditUser = None\<rparr>"

text \<open>
  A stored task as two separate queries hydrate it: the same values, but each
  document holds ObjectId objects of its own. \<open>updated_task\<close> is the task after
  \<open>completed\<close> has been set.
\<close>

definition loaded_task :: task_doc where
  "loaded_task =
     \<lparr>doc_id = (20, ''t2''),
      doc_fields = (\<lambda>_. JUndefined)
        (''title'' := JStr ''a'', ''description'' := JStr [],
         ''completed'' := JBool False, ''owner'' := JObjectId 21 ''u1''),
      isNew = False, modifiedPaths = [], locals_auditUser = None\<rparr>"

definition updated_task :: task_doc where
  "updated_task =
     \<lparr>doc_id = (22, ''t2''),
      doc_fields = (\<lambda>_. JUndefined)
        (''title'' := JStr ''a'', ''description'' := JStr [],
         ''completed'' := JBool True, ''owner'' := JObjectId 23 ''u1''),
      isNew = False, modifiedPaths = [], locals_auditUser = None\<rparr>"

definition edited_task :: task_doc where
  "edited_task =
     \<lparr>doc_id = (20, ''t2''),
      doc_fields = (\<lambda>_. JUndefined)
        (''title'' := JStr ''b'', ''description'' := JStr [],
         ''completed'' := JBool False, ''owner'' := JObjectId 21 ''u1''),
      isNew = False, modifiedPaths = [''title''], locals_auditUser = None\<rparr>"

definition minimal_new_task :: task_doc where
  "minimal_new_task =
     \<lparr>doc_id = (30, ''t3''),
      doc_fields = (\<lambda>_. JUndefined)
        (''title'' := JStr ''Call Bob'', ''completed'' := JBool False,
         ''owner'' := JObjectId 31 ''u1''),
      isNew = True, modifiedPaths = [''title'', ''owner''], locals_auditUser = None\<rparr>"

definition complete_update :: update_payload where
  "complete_update =
     \<lparr>set_directive = None, top_level = (\<lambda>_. JUndefined)(''completed'' := JBool True)\<rparr>"

definition plain_query :: query where
  "plain_query = \<lparr>q_originalDoc = None, q_deletedDoc = None, q_auditUser = None, q_update = None\<rparr>"

definition admin_user :: req_user where
  "admin_user = \<lparr>user_id = (40, ''u9''), email = ''bob@example.com'',
                 roles = [''user'', ''admin'']\<rparr>"

section \<open>Auxiliary lemmas\<close>

lemma strict_neq_undefined: "strict_neq a JUndefined \<longleftrightarrow> a \<noteq> JUndefined"
  by (cases a) (simp_all add: strict_neq_def strict_eq_def)

text \<open>A \<open>forEach\<close> that pushes conditionally is a filter followed by a map.\<close>

lemma foldl_push:
  "foldl (\<lambda>logs field. if P field then logs @ [g field] else logs) acc xs
     = acc @ map g (filter P xs)"
  by (induction xs arbitrary: acc) simp_all

lemma getChangedFieldsForCreate_eq:
  "getChangedFieldsForCreate doc =
     map (\<lambda>field. \<lparr>field_name = field, from_value = JNull, to_value = doc_fields doc field\<rparr>)
       (filter (\<lambda>field. doc_fields doc field \<noteq> JUndefined) auditFields)"
  unfolding getChangedFieldsForCreate_def strict_neq_undefined
  by (rule foldl_push [where acc = "[]", simplified])

lemma getChangedFieldsForUpdate_eq:
  "getChangedFieldsForUpdate doc =
     map (\<lambda>field. \<lparr>field_name = field, from_value = doc_fields doc field,
                     to_value = doc_fields doc field\<rparr>)
       (filter (isModified doc) auditFields)"
  unfolding getChangedFieldsForUpdate_def doc_get_def Let_def
  by (rule foldl_push [where acc = "[]", simplified])

lemma updateLogs_eq:
  "updateLogs originalDoc update doc =
     map (\<lambda>field. \<lparr>field_name = field, from_value = doc_fields originalDoc field,
                     to_value = resolveNewValue update doc field\<rparr>)
       (filter (\<lambda>field. strict_neq (doc_fields originalDoc field) (resolveNewValue update doc field)
                        \<and> resolveNewValue update doc field \<noteq> JUndefined) auditFields)"
  unfolding updateLogs_def Let_def strict_neq_undefined
  by (rule foldl_push [where acc = "[]", simplified])

lemma fst_catch_and_next: "fst (catch_and_next r) = None"
  by (cases r) (auto simp: catch_and_next_def split: option.splits)

lemma history_catch_and_next: "history (snd (catch_and_next r)) = history (snd r)"
  by (cases r) (auto simp: catch_and_next_def split: option.splits)

lemma ops_catch_and_next: "history_ops (snd (catch_and_next r)) = history_ops (snd r)"
  by (cases r) (auto simp: catch_and_next_def split: option.splits)

lemma fst_post_save: "fst (post_save up doc w) = None"
  by (simp add: post_save_def fst_catch_and_next)

lemma fst_post_findOneAndUpdate: "fst (post_findOneAndUpdate up q doc w) = None"
  by (cases doc) (simp_all add: post_findOneAndUpdate_def fst_catch_and_next)

lemma fst_post_findOneAndDelete: "fst (post_findOneAndDelete up q doc w) = None"
  by (simp add: post_findOneAndDelete_def fst_catch_and_next)

lemma fst_after_hook: "fst r = None \<Longrightarrow> fst (after_hook res r) = Inr res"
  by (cases r) (simp add: after_hook_def)

lemma fst_save_op:
  "fst (save_op up primary w) = (case primary of Inl e \<Rightarrow> Inl e | Inr doc \<Rightarrow> Inr (saved_state doc))"
  by (cases primary) (simp_all add: save_op_def fst_after_hook fst_post_save)

text \<open>A rejected before-phase fetch is the caller's result; otherwise the primary result is.\<close>

lemma fst_findOneAndUpdate_op:
  "fst (findOneAndUpdate_op up fetched primary q w) =
     (case fetched of Inl e \<Rightarrow> Inl e | Inr _ \<Rightarrow> primary)"
  by (cases fetched; cases primary)
     (simp_all add: findOneAndUpdate_op_def pre_findOneAndUpdate_def fst_after_hook
        fst_post_findOneAndUpdate)

lemma fst_findOneAndDelete_op:
  "fst (findOneAndDelete_op up fetched primary q w) =
     (case fetched of Inl e \<Rightarrow> Inl e | Inr _ \<Rightarrow> primary)"
  by (cases fetched; cases primary)
     (simp_all add: findOneAndDelete_op_def pre_findOneAndDelete_def fst_after_hook
        fst_post_findOneAndDelete)

text \<open>
  What the post-save hook does with a document it sees as new. No \<open>save()\<close> hands
  it such a document.
\<close>

lemma post_save_new:
  assumes "isNew doc"
  shows "post_save True doc w =
           (None, w\<lparr>history_ops := history_ops w @ [OpCreate],
                    history := history w @
                      [\<lparr>model = ''Task'', model_id = doc_id doc, change_type = ''create'',
                        logs = getChangedFieldsForCreate doc,
                        created_by = created_by_of (locals_auditUser doc),
                        created_at = clock w\<rparr>]\<rparr>)"
  using assms
  by (simp add: post_save_def post_save_try_def TaskHistory_create_def validate_history_def
      catch_and_next_def Let_def)

lemma length_filter_card:
  "distinct xs \<Longrightarrow> length (filter P xs) = card {x \<in> set xs. P x}"
  by (metis distinct_filter distinct_card set_filter)

lemma distinct_auditFields: "distinct auditFields"
  by (simp add: auditFields_def)

lemma validate_Task:
  "ct \<in> {''create'', ''update'', ''delete''} \<Longrightarrow>
   validate_history \<lparr>model = ''Task'', model_id = i, change_type = ct, logs = l,
                     created_by = c, created_at = t\<rparr>"
  by (auto simp: validate_history_def)

lemma create_accepted:
  "validate_history r \<Longrightarrow>
   TaskHistory_create True r w =
     (None, w\<lparr>history_ops := history_ops w @ [OpCreate], history := history w @ [r]\<rparr>)"
  by (simp add: TaskHistory_create_def Let_def)

lemma create_rejected:
  "validate_history r \<Longrightarrow>
   TaskHistory_create False r w = (Some DbError, w\<lparr>history_ops := history_ops w @ [OpCreate]\<rparr>)"
  by (simp add: TaskHistory_create_def Let_def)

lemma catch_and_next_None: "catch_and_next (None, w) = (None, w)"
  by (simp add: catch_and_next_def)

lemma added_refl: "added_records w w = []"
  by (simp add: added_records_def)

lemma added_create:
  "validate_history r \<Longrightarrow>
   added_records w (snd (catch_and_next (TaskHistory_create up r w))) = (if up then [r] else [])"
  by (cases up) (simp_all add: create_accepted create_rejected catch_and_next_def added_records_def)

lemma post_save_update:
  assumes "\<not> isNew doc"
  shows "post_save True doc w =
           (if getChangedFieldsForUpdate doc = [] then (None, w)
            else (None, w\<lparr>history_ops := history_ops w @ [OpCreate],
                    history := history w @
                      [\<lparr>model = ''Task'', model_id = doc_id doc, change_type = ''update'',
                        logs = getChangedFieldsForUpdate doc,
                        created_by = created_by_of (locals_auditUser doc),
                        created_at = clock w\<rparr>]\<rparr>))"
  using assms
  by (simp add: post_save_def post_save_try_def TaskHistory_create_def validate_history_def
      catch_and_next_def Let_def)

lemma added_post_save:
  "added_records w (snd (post_save up doc w)) =
     (if up \<and> (isNew doc \<or> getChangedFieldsForUpdate doc \<noteq> [])
      then [save_record doc w] else [])"
proof (cases "isNew doc")
  case True
  then show ?thesis
    by (simp add: post_save_def post_save_try_def save_record_def added_create validate_Task)
next
  case False
  then show ?thesis
    by (simp add: post_save_def post_save_try_def save_record_def added_create validate_Task
        catch_and_next_None added_refl Let_def)
qed

lemma added_post_findOneAndUpdate:
  "added_records w (snd (post_findOneAndUpdate up q doc w)) =
     (case (doc, q_originalDoc q, q_update q) of
        (Some d, Some originalDoc, Some update) \<Rightarrow>
          if up \<and> updateLogs originalDoc update d \<noteq> []
          then [\<lparr>model = ''Task'', model_id = doc_id d, change_type = ''update'',
                 logs = updateLogs originalDoc update d,
                 created_by = created_by_of (q_auditUser q), created_at = clock w\<rparr>]
          else []
      | _ \<Rightarrow> [])"
proof (cases doc)
  case None
  then show ?thesis by (simp add: post_findOneAndUpdate_def added_refl)
next
  case (Some d)
  show ?thesis
  proof (cases "q_originalDoc q")
    case None
    with Some show ?thesis
      by (simp add: post_findOneAndUpdate_def post_findOneAndUpdate_try_def
          catch_and_next_None added_refl)
  next
    case od: (Some originalDoc)
    show ?thesis
    proof (cases "q_update q")
      case None
      with Some od show ?thesis
        by (simp add: post_findOneAndUpdate_def post_findOneAndUpdate_try_def
            catch_and_next_def added_records_def)
    next
      case u: (Some update)
      with Some od show ?thesis
        by (simp add: post_findOneAndUpdate_def post_findOneAndUpdate_try_def
            catch_and_next_None added_refl added_create validate_Task Let_def)
    qed
  qed
qed

lemma added_post_findOneAndDelete:
  "added_records w (snd (post_findOneAndDelete up q doc w)) =
     (case deletedDoc_of q doc of
        Some d \<Rightarrow>
          if up
          then [\<lparr>model = ''Task'', model_id = doc_id d, change_type = ''delete'',
                 logs = deleteSentinel,
                 created_by = created_by_of (q_auditUser q), created_at = clock w\<rparr>]
          else []
      | None \<Rightarrow> [])"
proof (cases "deletedDoc_of q doc")
  case None
  then show ?thesis
    by (simp add: post_findOneAndDelete_def post_findOneAndDelete_try_def
        catch_and_next_None added_refl)
next
  case (Some d)
  then show ?thesis
    by (simp add: post_findOneAndDelete_def post_findOneAndDelete_try_def
        added_create validate_Task)
qed

lemma history_prefix_create: "prefix (history w) (history (snd (TaskHistory_create up r w)))"
  by (simp add: TaskHistory_create_def Let_def)

lemma prefix_post_save: "prefix (history w) (history (snd (post_save up doc w)))"
proof (cases "isNew doc")
  case True
  then show ?thesis
    by (simp add: post_save_def post_save_try_def history_catch_and_next history_prefix_create)
next
  case False
  then show ?thesis
    by (simp add: post_save_def post_save_try_def history_catch_and_next history_prefix_create
        Let_def)
qed

lemma prefix_post_findOneAndUpdate:
  "prefix (history w) (history (snd (post_findOneAndUpdate up q doc w)))"
  by (simp add: post_findOneAndUpdate_def post_findOneAndUpdate_try_def history_catch_and_next
      history_prefix_create Let_def split: option.splits)

lemma prefix_post_findOneAndDelete:
  "prefix (history w) (history (snd (post_findOneAndDelete up q doc w)))"
  by (simp add: post_findOneAndDelete_def post_findOneAndDelete_try_def history_catch_and_next
      history_prefix_create Let_def split: option.splits)

lemma history_split:
  "prefix (history w) (history w') \<Longrightarrow> history w' = history w @ added_records w w'"
  by (auto simp: added_records_def prefix_def)

lemma snd_after_hook: "snd (after_hook res r) = snd r"
  by (cases r) (simp add: after_hook_def split: option.splits)

text \<open>
  After \<open>save()\<close> the hook sees a document that is not new and has no modified
  path: it writes nothing, and the world is as before.
\<close>

lemma post_save_saved_state: "post_save up (saved_state doc) w = (None, w)"
proof -
  have "getChangedFieldsForUpdate (saved_state doc) = []"
    by (simp add: getChangedFieldsForUpdate_eq isModified_def saved_state_def)
  moreover have "\<not> isNew (saved_state doc)"
    by (simp add: saved_state_def)
  ultimately show ?thesis
    by (simp add: post_save_def post_save_try_def catch_and_next_None Let_def)
qed

lemma save_op_Inr: "save_op up (Inr doc) w = (Inr (saved_state doc), w)"
  by (simp add: save_op_def post_save_saved_state after_hook_def)

lemma snd_save_op: "snd (save_op up primary w) = w"
proof (cases primary)
  case (Inl e)
  then show ?thesis by (simp add: save_op_def)
next
  case (Inr doc)
  then show ?thesis by (simp add: save_op_Inr)
qed

text \<open>The records an atomic pathway adds are those its after-phase hook adds.\<close>

lemma added_findOneAndUpdate_op:
  "added_records w (snd (findOneAndUpdate_op up fetched primary q w)) =
     (case (fetched, primary) of
        (Inr d, Inr doc) \<Rightarrow>
           added_records w (snd (post_findOneAndUpdate up (q\<lparr>q_originalDoc := d\<rparr>) doc w))
      | _ \<Rightarrow> [])"
  by (simp add: findOneAndUpdate_op_def pre_findOneAndUpdate_def snd_after_hook added_refl
      split: sum.splits)

lemma added_findOneAndDelete_op:
  "added_records w (snd (findOneAndDelete_op up fetched primary q w)) =
     (case (fetched, primary) of
        (Inr d, Inr doc) \<Rightarrow>
           added_records w (snd (post_findOneAndDelete up (q\<lparr>q_deletedDoc := d\<rparr>) doc w))
      | _ \<Rightarrow> [])"
  by (simp add: findOneAndDelete_op_def pre_findOneAndDelete_def snd_after_hook added_refl
      split: sum.splits)

lemma prefix_findOneAndUpdate_op:
  "prefix (history w) (history (snd (findOneAndUpdate_op up fetched primary q w)))"
  by (simp add: findOneAndUpdate_op_def pre_findOneAndUpdate_def snd_after_hook
      prefix_post_findOneAndUpdate split: sum.splits)

lemma prefix_findOneAndDelete_op:
  "prefix (history w) (history (snd (findOneAndDelete_op up fetched primary q w)))"
  by (simp add: findOneAndDelete_op_def pre_findOneAndDelete_def snd_after_hook
      prefix_post_findOneAndDelete split: sum.splits)

lemma history_findOneAndUpdate_op:
  "history (snd (findOneAndUpdate_op up fetched primary q w)) =
     history w @ added_records w (snd (findOneAndUpdate_op up fetched primary q w))"
  by (rule history_split [OF prefix_findOneAndUpdate_op])

lemma history_findOneAndDelete_op:
  "history (snd (findOneAndDelete_op up fetched primary q w)) =
     history w @ added_records w (snd (findOneAndDelete_op up fetched primary q w))"
  by (rule history_split [OF prefix_findOneAndDelete_op])

lemma history_getAuditLogs: "history (snd (getAuditLogs c f w)) = history w"
  by (simp add: getAuditLogs_def TaskHistory_query_def Let_def)

lemma history_getTaskAuditLogs: "history (snd (getTaskAuditLogs f w)) = history w"
  by (simp add: getTaskAuditLogs_def TaskHistory_query_def Let_def)

lemma created_by_post_save:
  "r \<in> set (added_records w (snd (post_save up doc w))) \<Longrightarrow>
   created_by r = created_by_of (locals_auditUser doc)"
  by (simp add: added_post_save save_record_def split: if_splits)

lemma created_by_findOneAndUpdate_op:
  "r \<in> set (added_records w (snd (findOneAndUpdate_op up fetched primary q w))) \<Longrightarrow>
   created_by r = created_by_of (q_auditUser q)"
  by (cases fetched; cases primary)
     (auto simp: added_findOneAndUpdate_op added_post_findOneAndUpdate
        split: option.splits if_splits)

lemma created_by_findOneAndDelete_op:
  "r \<in> set (added_records w (snd (findOneAndDelete_op up fetched primary q w))) \<Longrightarrow>
   created_by r = created_by_of (q_auditUser q)"
  by (cases fetched; cases primary)
     (auto simp: added_findOneAndDelete_op added_post_findOneAndDelete
        split: option.splits if_splits)

section \<open>Failure isolation\<close>

text \<open>
  What holds of the after phase: each post hook calls \<open>next\<close> without an error
  whatever the audit store does, and the caller's result does not depend on
  whether the audit write is accepted.
\<close>

lemma after_phase_failure_absorbed:
  "fst (post_save up doc w) = None
   \<and> fst (post_findOneAndUpdate up q res w) = None
   \<and> fst (post_findOneAndDelete up q res w) = None
   \<and> fst (save_op False saved w) = fst (save_op True saved w)
   \<and> fst (findOneAndUpdate_op False fetched primary q w)
       = fst (findOneAndUpdate_op True fetched primary q w)
   \<and> fst (findOneAndDelete_op False fetched primary q w)
       = fst (findOneAndDelete_op True fetched primary q w)
   \<and> fst (save_op up (Inr doc) w) = Inr (saved_state doc)
   \<and> fst (findOneAndUpdate_op up (Inr snapshot) (Inr res) q w) = Inr res
   \<and> fst (findOneAndDelete_op up (Inr snapshot) (Inr res) q w) = Inr res"
  by (simp add: fst_post_save fst_post_findOneAndUpdate fst_post_findOneAndDelete
      fst_save_op fst_findOneAndUpdate_op fst_findOneAndDelete_op)

text \<open>A write the store rejects does raise inside the \<open>try\<close> block, and is logged.\<close>

lemma rejected_write_is_caught:
  shows "fst (post_findOneAndDelete_try False q (Some d) w) = Some DbError"
    and "console (snd (post_findOneAndDelete False q (Some d) w)) = console w @ [DbError]"
    and "history (snd (post_findOneAndDelete False q (Some d) w)) = history w"
  by (cases "q_deletedDoc q";
      simp add: post_findOneAndDelete_def post_findOneAndDelete_try_def deletedDoc_of_def
        create_rejected validate_Task catch_and_next_def)+

text \<open>
  Claim C1. Not every failure of the audit subsystem is absorbed: the pre hooks of
  the atomic pathways fetch the snapshot without a \<open>try\<close>, so when that fetch is
  rejected the caller of the update or of the delete receives the error and not
  the result of the mutation.
\<close>

theorem C1_rejected_fetch_reaches_caller:
  "fst (findOneAndUpdate_op True (Inl DbError) (Inr (Some updated_task))
          (plain_query\<lparr>q_update := Some complete_update\<rparr>) world0) = Inl DbError
   \<and> fst (findOneAndDelete_op True (Inl DbError) (Inr (Some loaded_task)) plain_query world0)
       = Inl DbError"
  by (simp add: findOneAndUpdate_op_def pre_findOneAndUpdate_def findOneAndDelete_op_def
      pre_findOneAndDelete_def)

section \<open>Create\<close>

text \<open>
  What the post-save hook does with a document it sees as new, when the store
  accepts the write: one create record, with one null-to-value entry per audited
  field that is not undefined, in the order of \<open>auditFields\<close>.
\<close>

lemma post_save_on_new_document:
  assumes "isNew doc"
  shows "\<exists>r. history (snd (post_save True doc w)) = history w @ [r]
           \<and> model r = ''Task'' \<and> model_id r = doc_id doc \<and> change_type r = ''create''
           \<and> logs r = map (\<lambda>field. \<lparr>field_name = field, from_value = JNull,
                                        to_value = doc_fields doc field\<rparr>)
                         (filter (\<lambda>field. doc_fields doc field \<noteq> JUndefined)
                            [''title'', ''description'', ''completed'', ''owner''])
           \<and> length (logs r) =
               card {field \<in> {''title'', ''description'', ''completed'', ''owner''}.
                       doc_fields doc field \<noteq> JUndefined}"
proof -
  let ?r = "\<lparr>model = ''Task'', model_id = doc_id doc, change_type = ''create'',
             logs = getChangedFieldsForCreate doc,
             created_by = created_by_of (locals_auditUser doc),
             created_at = clock w\<rparr>"
  have h: "history (snd (post_save True doc w)) = history w @ [?r]"
    by (simp add: post_save_new [OF assms])
  have l: "logs ?r = map (\<lambda>field. \<lparr>field_name = field, from_value = JNull,
                                        to_value = doc_fields doc field\<rparr>)
                         (filter (\<lambda>field. doc_fields doc field \<noteq> JUndefined)
                            [''title'', ''description'', ''completed'', ''owner''])"
    by (simp only: history_record.simps getChangedFieldsForCreate_eq auditFields_def)
  have n: "length (logs ?r) =
             card {field \<in> {''title'', ''description'', ''completed'', ''owner''}.
                     doc_fields doc field \<noteq> JUndefined}"
    using length_filter_card [OF distinct_auditFields, of "\<lambda>field. doc_fields doc field \<noteq> JUndefined"]
    by (simp add: getChangedFieldsForCreate_eq auditFields_def)
  show ?thesis
    using h l n by (intro exI [of _ ?r]) simp
qed

text \<open>
  Claim C2. Creating a task writes no audit record: \<open>save()\<close> hands the post-save
  hook the document with \<open>isNew\<close> false and no modified path, the hook takes the
  update branch with an empty change list, and \<open>TaskHistory.create\<close> is not called.
\<close>

theorem C2_create_writes_no_record:
  "isNew new_task
   \<and> save_op True (Inr new_task) world0 = (Inr (saved_state new_task), world0)
   \<and> history (snd (save_op True (Inr new_task) world0)) = []"
  by (simp add: save_op_def saved_state_def post_save_def post_save_try_def
      getChangedFieldsForUpdate_def isModified_def auditFields_def catch_and_next_def
      after_hook_def new_task_def world0_def Let_def)

section \<open>In-memory update\<close>

text \<open>
  What the post-save hook does with a document it sees as modified: one update
  record whose entries are the modified audited fields, each with the document's
  current value on both sides (\<open>doc.get\<close> reads the value held now).
\<close>

lemma in_memory_update_fields:
  assumes "\<not> isNew doc" and "\<exists>field \<in> set auditFields. isModified doc field"
  shows "\<exists>r. history (snd (post_save True doc w)) = history w @ [r]
           \<and> change_type r = ''update''
           \<and> map field_name (logs r) = filter (isModified doc) auditFields
           \<and> (\<forall>e \<in> set (logs r). from_value e = doc_fields doc (field_name e)
                                 \<and> to_value e = doc_fields doc (field_name e))"
proof -
  from assms(2) have ne: "getChangedFieldsForUpdate doc \<noteq> []"
    by (auto simp: getChangedFieldsForUpdate_eq filter_empty_conv)
  show ?thesis
    using ne by (simp add: post_save_update [OF assms(1)] getChangedFieldsForUpdate_eq comp_def)
qed

text \<open>
  Claim C3. An in-memory update writes no audit record: the task loaded with title
  a has its title set to b, the title is marked modified when \<open>save()\<close> is called,
  and the post-save hook, which sees no modified path, writes nothing.
\<close>

theorem C3_in_memory_update_writes_no_record:
  "doc_fields loaded_task ''title'' = JStr ''a''
   \<and> doc_fields edited_task ''title'' = JStr ''b''
   \<and> isModified edited_task ''title''
   \<and> save_op True (Inr edited_task) world0 = (Inr (saved_state edited_task), world0)
   \<and> history (snd (save_op True (Inr edited_task) world0)) = []"
  by (simp add: save_op_def saved_state_def post_save_def post_save_try_def
      getChangedFieldsForUpdate_def isModified_def auditFields_def catch_and_next_def
      after_hook_def loaded_task_def edited_task_def world0_def Let_def)

section \<open>Atomic update\<close>

text \<open>What holds of the atomic diff.\<close>

lemma resolveNewValue_cases:
  "resolveNewValue update doc field =
     (case set_directive update of
        Some s \<Rightarrow> if s field \<noteq> JUndefined then s field
                  else if top_level update field \<noteq> JUndefined then top_level update field
                  else doc_fields doc field
      | None \<Rightarrow> if top_level update field \<noteq> JUndefined then top_level update field
                else doc_fields doc field)"
  by (simp add: resolveNewValue_def strict_neq_undefined Let_def split: option.splits)

lemma strict_eq_primitives:
  "strict_eq (JBool False) (JBool False)"
  "strict_eq (JNum 0) (JNum 0)"
  "strict_neq JUndefined JNull"
  "strict_neq JNull JUndefined"
  by (simp_all add: strict_eq_def strict_neq_def)

lemma atomic_entry_iff:
  "field \<in> set auditFields \<Longrightarrow>
   field \<in> set (map field_name (updateLogs originalDoc update doc)) \<longleftrightarrow>
     strict_neq (doc_fields originalDoc field) (resolveNewValue update doc field)
     \<and> resolveNewValue update doc field \<noteq> JUndefined"
  by (auto simp: updateLogs_eq)

text \<open>
  Whenever the snapshot and the updated document hold distinct ObjectId objects for
  the same owner and the update does not name the owner, the owner is logged.
\<close>

lemma unchanged_owner_always_logged:
  assumes "doc_fields originalDoc ''owner'' = JObjectId r i"
    and "doc_fields doc ''owner'' = JObjectId r' i"
    and "r \<noteq> r'"
    and "resolveNewValue update doc ''owner'' = doc_fields doc ''owner''"
  shows "\<lparr>field_name = ''owner'', from_value = JObjectId r i, to_value = JObjectId r' i\<rparr>
           \<in> set (updateLogs originalDoc update doc)"
  using assms by (simp add: updateLogs_eq auditFields_def strict_neq_def strict_eq_def)

text \<open>
  Claim C4. An atomic update that sets only \<open>completed\<close> from false to true does
  not yield a single entry: the snapshot fetched by the pre hook and the updated
  document hold distinct ObjectId objects for the same owner, \<open>!==\<close> compares
  them by identity, and the unchanged owner is logged as a second entry.
\<close>

theorem C4_unchanged_owner_logged:
  "strict_neq (JObjectId 21 ''u1'') (JObjectId 23 ''u1'')
   \<and> map logs (added_records world0
        (snd (findOneAndUpdate_op True (Inr (Some loaded_task)) (Inr (Some updated_task))
                (plain_query\<lparr>q_update := Some complete_update\<rparr>) world0)))
     = [[\<lparr>field_name = ''completed'', from_value = JBool False, to_value = JBool True\<rparr>,
         \<lparr>field_name = ''owner'', from_value = JObjectId 21 ''u1'',
           to_value = JObjectId 23 ''u1''\<rparr>]]"
  by (simp add: loaded_task_def updated_task_def complete_update_def plain_query_def world0_def
      findOneAndUpdate_op_def pre_findOneAndUpdate_def post_findOneAndUpdate_def
      post_findOneAndUpdate_try_def updateLogs_def resolveNewValue_def strict_neq_def
      strict_eq_def auditFields_def after_hook_def
      TaskHistory_create_def validate_history_def catch_and_next_def added_records_def Let_def)

section \<open>Suppression of empty updates\<close>

lemma no_modified_no_logs:
  "(\<forall>field \<in> set auditFields. \<not> isModified doc field) \<Longrightarrow> getChangedFieldsForUpdate doc = []"
  by (simp add: getChangedFieldsForUpdate_eq filter_empty_conv)

lemma no_fields_no_logs:
  "(\<forall>field \<in> set auditFields. doc_fields doc field = JUndefined) \<Longrightarrow>
   getChangedFieldsForCreate doc = []"
  by (simp add: getChangedFieldsForCreate_eq filter_empty_conv)

lemma nonempty_findOneAndUpdate_op:
  "update_records_nonempty (added_records w (snd (findOneAndUpdate_op up fetched primary q w)))"
  by (cases fetched; cases primary)
     (simp_all add: added_findOneAndUpdate_op added_post_findOneAndUpdate
        update_records_nonempty_def split: option.splits)

lemma nonempty_findOneAndDelete_op:
  "update_records_nonempty (added_records w (snd (findOneAndDelete_op up fetched primary q w)))"
  by (cases fetched; cases primary)
     (simp_all add: added_findOneAndDelete_op added_post_findOneAndDelete
        update_records_nonempty_def split: option.splits)

lemma nonempty_append:
  "update_records_nonempty (xs @ ys) \<longleftrightarrow> update_records_nonempty xs \<and> update_records_nonempty ys"
  by (simp add: update_records_nonempty_def)

lemma nonempty_step:
  assumes "update_records_nonempty (history w)"
  shows "update_records_nonempty (history (step ev w))"
proof (cases ev)
  case (EvSave up primary)
  then show ?thesis using assms by (simp add: snd_save_op)
next
  case (EvUpdate up fetched primary q)
  have "update_records_nonempty
          (history w @ added_records w (snd (findOneAndUpdate_op up fetched primary q w)))"
    using assms nonempty_findOneAndUpdate_op by (simp only: nonempty_append)
  then show ?thesis using EvUpdate history_findOneAndUpdate_op by simp
next
  case (EvDelete up fetched primary q)
  have "update_records_nonempty
          (history w @ added_records w (snd (findOneAndDelete_op up fetched primary q w)))"
    using assms nonempty_findOneAndDelete_op by (simp only: nonempty_append)
  then show ?thesis using EvDelete history_findOneAndDelete_op by simp
next
  case (EvGetAuditLogs c f)
  then show ?thesis using assms by (simp add: history_getAuditLogs)
next
  case (EvGetTaskAuditLogs f)
  then show ?thesis using assms by (simp add: history_getTaskAuditLogs)
qed

lemma nonempty_run:
  "update_records_nonempty (history w) \<Longrightarrow> update_records_nonempty (history (run evs w))"
  by (induction evs arbitrary: w) (simp_all add: nonempty_step)

text \<open>
  What holds of suppression: the post-save hook writes nothing for a document that
  is not new and has no audited field modified, the atomic update writes nothing
  when the computed change list is empty, and the update records of the collection
  keep non-empty change lists over any sequence of operations.
\<close>

lemma empty_updates_suppressed:
  "(\<not> isNew doc \<and> (\<forall>field \<in> set auditFields. \<not> isModified doc field)
      \<longrightarrow> post_save up doc w = (None, w))
   \<and> (updateLogs originalDoc update res = []
      \<longrightarrow> history (snd (findOneAndUpdate_op up (Inr (Some originalDoc)) (Inr (Some res))
                          (q\<lparr>q_update := Some update\<rparr>) w)) = history w)
   \<and> (update_records_nonempty (history w) \<longrightarrow> update_records_nonempty (history (run evs w)))"
proof -
  have a: "post_save up doc w = (None, w)"
    if "\<not> isNew doc" "\<forall>field \<in> set auditFields. \<not> isModified doc field"
    using that no_modified_no_logs [of doc]
    by (simp add: post_save_def post_save_try_def catch_and_next_None Let_def)
  have b: "history (snd (findOneAndUpdate_op up (Inr (Some originalDoc)) (Inr (Some res))
                          (q\<lparr>q_update := Some update\<rparr>) w)) = history w"
    if "updateLogs originalDoc update res = []"
    using that
    by (simp add: history_findOneAndUpdate_op [of up "Inr (Some originalDoc)" "Inr (Some res)" _ w]
        added_findOneAndUpdate_op added_post_findOneAndUpdate)
  show ?thesis
    using a b nonempty_run by blast
qed

text \<open>
  Claim C5. A create does not write its record: a new task built from a title and
  an owner is saved with the store accepting writes, and the collection stays
  empty.
\<close>

theorem C5_create_not_written:
  "isNew minimal_new_task
   \<and> history (snd (save_op True (Inr minimal_new_task) world0)) = []
   \<and> history_ops (snd (save_op True (Inr minimal_new_task) world0)) = []"
  by (simp add: save_op_def saved_state_def post_save_def post_save_try_def
      getChangedFieldsForUpdate_def isModified_def auditFields_def catch_and_next_def
      after_hook_def minimal_new_task_def world0_def Let_def)

section \<open>Atomic delete\<close>



section \<open>Skipped audit of an atomic update\<close>

text \<open>
  What holds when the before-phase fetch returns: with the updated document absent
  or the snapshot missing, the post-update hook leaves the world unchanged and the
  caller receives the primary result.
\<close>

lemma update_skipped_without_document_or_snapshot:
  "(res = None \<or> q_originalDoc q = None \<longrightarrow> post_findOneAndUpdate up q res w = (None, w))
   \<and> (res = None \<or> snapshot = None
      \<longrightarrow> findOneAndUpdate_op up (Inr snapshot) (Inr res) q w = (Inr res, w))"
proof -
  have a: "post_findOneAndUpdate up q' res w = (None, w)"
    if "res = None \<or> q_originalDoc q' = None" for q'
    using that
    by (cases res)
       (auto simp: post_findOneAndUpdate_def post_findOneAndUpdate_try_def catch_and_next_def)
  have b: "findOneAndUpdate_op up (Inr snapshot) (Inr res) q w = (Inr res, w)"
    if "res = None \<or> snapshot = None"
    using that a [of "q\<lparr>q_originalDoc := snapshot\<rparr>"]
    by (auto simp: findOneAndUpdate_op_def pre_findOneAndUpdate_def after_hook_def)
  show ?thesis using a b by blast
qed

text \<open>
  Claim C7. When the snapshot is not obtained because the before-phase fetch is
  rejected, the audit is not skipped in silence: the pre hook has no handler, the
  update is cancelled, and the caller receives the error of the fetch and not the
  updated task.
\<close>

theorem C7_rejected_fetch_cancels_update:
  "findOneAndUpdate_op True (Inl DbError) (Inr (Some updated_task))
      (attach_options admin_user (plain_query\<lparr>q_update := Some complete_update\<rparr>)) world0
     = (Inl DbError, world0)
   \<and> fst (findOneAndUpdate_op True (Inl DbError) (Inr (Some updated_task))
          (attach_options admin_user (plain_query\<lparr>q_update := Some complete_update\<rparr>)) world0)
       \<noteq> Inr (Some updated_task)"
  by (simp add: findOneAndUpdate_op_def pre_findOneAndUpdate_def)

section \<open>Absent actor\<close>

lemma post_save_try_accepted: "fst (post_save_try True doc w) = None"
proof (cases "isNew doc")
  case True
  then show ?thesis by (simp add: post_save_try_def create_accepted validate_Task)
next
  case False
  then show ?thesis by (simp add: post_save_try_def create_accepted validate_Task Let_def)
qed

lemma post_findOneAndUpdate_try_accepted:
  "q_update q \<noteq> None \<Longrightarrow> fst (post_findOneAndUpdate_try True q d w) = None"
  by (auto simp: post_findOneAndUpdate_try_def create_accepted validate_Task Let_def
      split: option.splits)

lemma post_findOneAndDelete_try_accepted: "fst (post_findOneAndDelete_try True q res w) = None"
  by (simp add: post_findOneAndDelete_try_def create_accepted validate_Task split: option.splits)

text \<open>
  Claim C8. Without an \<open>auditUser\<close> in \<open>$locals\<close> or in the query options, every
  record a pathway or the post-save hook adds has \<open>created_by\<close> null, and the
  audit write raises nothing when the store accepts it.
\<close>

theorem C8_absent_actor_is_null:
  "(locals_auditUser doc = None
      \<longrightarrow> (\<forall>r \<in> set (added_records w (snd (save_op up (Inr doc) w))). created_by r = None)
          \<and> (\<forall>r \<in> set (added_records w (snd (post_save up doc w))). created_by r = None)
          \<and> fst (post_save_try True doc w) = None)
   \<and> (q_auditUser q = None
      \<longrightarrow> (\<forall>r \<in> set (added_records w (snd (findOneAndUpdate_op up fetched primary q w))).
              created_by r = None)
          \<and> (\<forall>r \<in> set (added_records w (snd (findOneAndDelete_op up fetched primary q w))).
              created_by r = None)
          \<and> (q_update q \<noteq> None \<longrightarrow> fst (post_findOneAndUpdate_try True q d w) = None)
          \<and> fst (post_findOneAndDelete_try True q res w) = None)"
  using created_by_post_save [of _ w up doc]
    created_by_findOneAndUpdate_op [of _ w up fetched primary q]
    created_by_findOneAndDelete_op [of _ w up fetched primary q]
    post_save_try_accepted [of doc w] post_findOneAndUpdate_try_accepted [of q d w]
    post_findOneAndDelete_try_accepted [of q res w]
  by (simp add: created_by_of_def snd_save_op added_refl)

theorem C8_absent_actor_is_null_witness:
  "map created_by (added_records world0
        (snd (findOneAndUpdate_op True (Inr (Some loaded_task)) (Inr (Some updated_task))
                (plain_query\<lparr>q_update := Some complete_update\<rparr>) world0))) = [None]
   \<and> map created_by (added_records world0
        (snd (findOneAndDelete_op True (Inr (Some loaded_task)) (Inr (Some loaded_task))
                (plain_query\<lparr>q_update := Some complete_update\<rparr>) world0))) = [None]
   \<and> fst (post_save_try True (saved_state new_task) world0) = None
   \<and> fst (post_findOneAndUpdate_try True (plain_query\<lparr>q_update := Some complete_update\<rparr>)
         updated_task world0) = None"
proof -
  let ?q = "plain_query\<lparr>q_update := Some complete_update\<rparr>"
  have h1: "locals_auditUser (saved_state new_task) = None"
    by (simp add: new_task_def saved_state_def)
  have h2: "q_auditUser ?q = None" "q_update ?q \<noteq> None" by (simp_all add: plain_query_def)
  have n2: "length (added_records world0
        (snd (findOneAndUpdate_op True (Inr (Some loaded_task)) (Inr (Some updated_task)) ?q world0))) = 1"
    by (simp add: added_findOneAndUpdate_op added_post_findOneAndUpdate plain_query_def
        updateLogs_eq auditFields_def resolveNewValue_cases complete_update_def loaded_task_def
        updated_task_def strict_neq_def strict_eq_def)
  have n3: "length (added_records world0
        (snd (findOneAndDelete_op True (Inr (Some loaded_task)) (Inr (Some loaded_task)) ?q world0))) = 1"
    by (simp add: added_findOneAndDelete_op added_post_findOneAndDelete plain_query_def
        deletedDoc_of_def)
  have one: "map f xs = [v]" if "length xs = 1" "\<forall>x \<in> set xs. f x = v"
    for f :: "history_record \<Rightarrow> audit_user option" and xs v
    using that by (cases xs) auto
  note c = C8_absent_actor_is_null [of "saved_state new_task" world0 True ?q "Inr (Some loaded_task)"
      "Inr (Some updated_task)" updated_task None]
  note c' = C8_absent_actor_is_null [of "saved_state new_task" world0 True ?q "Inr (Some loaded_task)"
      "Inr (Some loaded_task)" updated_task None]
  from c h1 h2 n2 one
  have "map created_by (added_records world0
        (snd (findOneAndUpdate_op True (Inr (Some loaded_task)) (Inr (Some updated_task)) ?q world0))) = [None]"
    and "fst (post_save_try True (saved_state new_task) world0) = None"
    and "fst (post_findOneAndUpdate_try True ?q updated_task world0) = None"
    by blast+
  moreover from c' h2 n3 one
  have "map created_by (added_records world0
        (snd (findOneAndDelete_op True (Inr (Some loaded_task)) (Inr (Some loaded_task)) ?q world0))) = [None]"
    by blast
  ultimately show ?thesis by blast
qed

section \<open>Append-only audit store\<close>

lemma prefix_step: "prefix (history w) (history (step ev w))"
  by (cases ev)
     (simp_all add: snd_save_op prefix_findOneAndUpdate_op prefix_findOneAndDelete_op
        history_getAuditLogs history_getTaskAuditLogs)

lemma prefix_run: "prefix (history w) (history (run evs w))"
proof (induction evs arbitrary: w)
  case Nil
  show ?case by simp
next
  case (Cons ev evs)
  have "prefix (history w) (history (step ev w))" by (rule prefix_step)
  also have "prefix (history (step ev w)) (history (run evs (step ev w)))" by (rule Cons.IH)
  finally show ?case by simp
qed

lemma ops_create: "history_ops (snd (TaskHistory_create up r w)) = history_ops w @ [OpCreate]"
  by (simp add: TaskHistory_create_def Let_def)

lemma reads_or_appends_Nil: "reads_or_appends []"
  by (simp add: reads_or_appends_def)

lemma ops_post_save:
  "\<exists>ops. history_ops (snd (post_save up doc w)) = history_ops w @ ops \<and> reads_or_appends ops"
proof (cases "isNew doc")
  case True
  then show ?thesis
    by (simp add: post_save_def post_save_try_def ops_catch_and_next ops_create reads_or_appends_def)
next
  case False
  then show ?thesis
    by (simp add: post_save_def post_save_try_def ops_catch_and_next ops_create
        reads_or_appends_def Let_def)
qed

lemma ops_post_findOneAndUpdate:
  "\<exists>ops. history_ops (snd (post_findOneAndUpdate up q doc w)) = history_ops w @ ops
         \<and> reads_or_appends ops"
  by (simp add: post_findOneAndUpdate_def post_findOneAndUpdate_try_def ops_catch_and_next
      ops_create reads_or_appends_def Let_def split: option.splits)

lemma ops_post_findOneAndDelete:
  "\<exists>ops. history_ops (snd (post_findOneAndDelete up q doc w)) = history_ops w @ ops
         \<and> reads_or_appends ops"
  by (simp add: post_findOneAndDelete_def post_findOneAndDelete_try_def ops_catch_and_next
      ops_create reads_or_appends_def Let_def split: option.splits)

lemma ops_getAuditLogs:
  "\<exists>ops. history_ops (snd (getAuditLogs c f w)) = history_ops w @ ops \<and> reads_or_appends ops"
  by (cases c; cases f) (simp_all add: getAuditLogs_def TaskHistory_query_def reads_or_appends_def Let_def)

lemma ops_getTaskAuditLogs:
  "\<exists>ops. history_ops (snd (getTaskAuditLogs f w)) = history_ops w @ ops \<and> reads_or_appends ops"
  by (simp add: getTaskAuditLogs_def TaskHistory_query_def reads_or_appends_def Let_def)

lemma ops_step:
  "\<exists>ops. history_ops (step ev w) = history_ops w @ ops \<and> reads_or_appends ops"
proof (cases ev)
  case (EvSave up primary)
  then show ?thesis by (simp add: snd_save_op reads_or_appends_Nil)
next
  case (EvUpdate up fetched primary q)
  then show ?thesis
    by (cases fetched; cases primary)
       (simp_all add: findOneAndUpdate_op_def pre_findOneAndUpdate_def snd_after_hook
          ops_post_findOneAndUpdate reads_or_appends_Nil)
next
  case (EvDelete up fetched primary q)
  then show ?thesis
    by (cases fetched; cases primary)
       (simp_all add: findOneAndDelete_op_def pre_findOneAndDelete_def snd_after_hook
          ops_post_findOneAndDelete reads_or_appends_Nil)
next
  case (EvGetAuditLogs c f)
  then show ?thesis by (simp add: ops_getAuditLogs)
next
  case (EvGetTaskAuditLogs f)
  then show ?thesis by (simp add: ops_getTaskAuditLogs)
qed

lemma ops_run:
  "\<exists>ops. history_ops (run evs w) = history_ops w @ ops \<and> reads_or_appends ops"
proof (induction evs arbitrary: w)
  case Nil
  show ?case by (simp add: reads_or_appends_Nil)
next
  case (Cons ev evs)
  obtain ops1 where 1: "history_ops (step ev w) = history_ops w @ ops1" "reads_or_appends ops1"
    using ops_step by blast
  obtain ops2 where 2: "history_ops (run evs (step ev w)) = history_ops (step ev w) @ ops2"
      "reads_or_appends ops2"
    using Cons.IH by blast
  have "history_ops (run (ev # evs) w) = history_ops w @ (ops1 @ ops2)"
    using 1 2 by simp
  moreover have "reads_or_appends (ops1 @ ops2)"
    using 1 2 by (simp add: reads_or_appends_def)
  ultimately show ?case by blast
qed

text \<open>
  Claim C9. After any sequence of task mutations and audit-log retrievals, the
  records present before are still there, unchanged and in place, in front of the
  new ones, and the operations issued on TaskHistory are only \<open>create\<close>, \<open>find\<close>
  and \<open>countDocuments\<close>: never an update or a delete.
\<close>

theorem C9_audit_store_append_only:
  "prefix (history w) (history (run evs w))
   \<and> (\<exists>ops. history_ops (run evs w) = history_ops w @ ops
          \<and> set ops \<subseteq> {OpCreate, OpFind, OpCountDocuments}
          \<and> OpUpdate \<notin> set ops \<and> OpDelete \<notin> set ops)"
proof -
  obtain ops where o: "history_ops (run evs w) = history_ops w @ ops" "reads_or_appends ops"
    using ops_run by blast
  from o(2) have "set ops \<subseteq> {OpCreate, OpFind, OpCountDocuments}"
    and "OpUpdate \<notin> set ops" and "OpDelete \<notin> set ops"
    by (auto simp: reads_or_appends_def)
  with o(1) prefix_run show ?thesis by blast
qed

theorem C9_audit_store_append_only_witness:
  "prefix (history world0)
     (history (run [EvUpdate True (Inr (Some loaded_task)) (Inr (Some updated_task))
                      (plain_query\<lparr>q_update := Some complete_update\<rparr>),
                    EvDelete True (Inr (Some loaded_task)) (Inr (Some loaded_task)) plain_query,
                    EvGetAuditLogs True True] world0))
   \<and> (\<exists>ops. history_ops
               (run [EvUpdate True (Inr (Some loaded_task)) (Inr (Some updated_task))
                      (plain_query\<lparr>q_update := Some complete_update\<rparr>),
                    EvDelete True (Inr (Some loaded_task)) (Inr (Some loaded_task)) plain_query,
                    EvGetAuditLogs True True] world0)
               = history_ops world0 @ ops
          \<and> set ops \<subseteq> {OpCreate, OpFind, OpCountDocuments}
          \<and> OpUpdate \<notin> set ops \<and> OpDelete \<notin> set ops)"
  using C9_audit_store_append_only
    [of world0 "[EvUpdate True (Inr (Some loaded_task)) (Inr (Some updated_task))
                      (plain_query\<lparr>q_update := Some complete_update\<rparr>),
                    EvDelete True (Inr (Some loaded_task)) (Inr (Some loaded_task)) plain_query,
                    EvGetAuditLogs True True]"]
  by simp

section \<open>Actor recorded by the task controller\<close>






end
